theory Spec2Isabelle
  imports Complex_Main "HOL-Library.Sublist" "HOL-Library.Char_ord" "HOL-Library.List_Lexorder"
    "HOL-Library.Word"
begin

section \<open>Task Manager REST API: the request handlers of restapi_2023012.py\<close>

text \<open>
  The handlers work on one global list \<open>task_store\<close> of task dictionaries. Each handler is
  modelled as a function from the store (and what the request carries) to the response and
  the store afterwards. An exception that leaves a handler is the response \<open>Uncaught\<close>:
  Flask answers it with status 500.

  Strings are \<open>string\<close>; a \<open>char\<close> stands for one code point below 256.
\<close>

subsection \<open>JSON values as Python sees them\<close>

text \<open>
  What \<open>request.get_json(silent=True)\<close> returns: \<open>None\<close> for a missing or malformed
  body (and for the literal \<open>null\<close>), otherwise the parsed value. A parsed object has each
  key once; it is an association list read with \<open>map_of\<close>. Of a float only its being
  zero or not matters below.
\<close>

datatype json =
    JNull
  | JBool bool
  | JInt int
  | JFloat rat
  | JStr string
  | JArr "json list"
  | JObj "(string \<times> json) list"

datatype py_exn = TypeError | AttributeError | KeyError

text \<open>Truth value of a JSON value, as \<open>if not data\<close> tests it.\<close>

fun truthy :: "json \<Rightarrow> bool" where
  "truthy JNull = False"
| "truthy (JBool b) = b"
| "truthy (JInt i) = (i \<noteq> 0)"
| "truthy (JFloat r) = (r \<noteq> 0)"
| "truthy (JStr s) = (s \<noteq> [])"
| "truthy (JArr xs) = (xs \<noteq> [])"
| "truthy (JObj kvs) = (kvs \<noteq> [])"

text \<open>
  \<open>key in payload\<close>: key membership for a dict, element equality for a list, substring
  test for a string, TypeError for a value that is not iterable.
\<close>

fun py_contains :: "string \<Rightarrow> json \<Rightarrow> py_exn + bool" where
  "py_contains key (JObj kvs) = Inr (map_of kvs key \<noteq> None)"
| "py_contains key (JArr xs) = Inr (JStr key \<in> set xs)"
| "py_contains key (JStr s) = Inr (sublist key s)"
| "py_contains key _ = Inl TypeError"

text \<open>
  \<open>payload[key]\<close> with a string key: the value or KeyError for a dict, TypeError for a
  list or a string (their indices are integers) and for a value with no subscript.
\<close>

fun py_getitem :: "json \<Rightarrow> string \<Rightarrow> py_exn + json" where
  "py_getitem (JObj kvs) key = (case map_of kvs key of None \<Rightarrow> Inl KeyError | Some v \<Rightarrow> Inr v)"
| "py_getitem _ key = Inl TypeError"

text \<open>\<open>data.get(key, default)\<close>: only a dict has the method.\<close>

fun py_get :: "json \<Rightarrow> string \<Rightarrow> json \<Rightarrow> py_exn + json" where
  "py_get (JObj kvs) key dflt = Inr (case map_of kvs key of None \<Rightarrow> dflt | Some v \<Rightarrow> v)"
| "py_get _ key dflt = Inl AttributeError"

text \<open>
  \<open>str.isspace\<close> on the code points below 256: tab to carriage return, the four
  separators 28 to 31, space, NEL (133) and the no-break space (160).
\<close>

definition isspace :: "char \<Rightarrow> bool" where
  "isspace c = (let n = (of_char c :: nat) in
     (9 \<le> n \<and> n \<le> 13) \<or> (28 \<le> n \<and> n \<le> 32) \<or> n = 133 \<or> n = 160)"

definition strip :: "string \<Rightarrow> string" where
  "strip s = rev (dropWhile isspace (rev (dropWhile isspace s)))"

text \<open>\<open>v.strip()\<close>: only a string has the method.\<close>

fun py_strip :: "json \<Rightarrow> py_exn + string" where
  "py_strip (JStr s) = Inr (strip s)"
| "py_strip _ = Inl AttributeError"

text \<open>
  \<open>not str(v).strip()\<close>. For a string \<open>str\<close> is the identity. For every other JSON
  value \<open>str\<close> gives its printed form (\<open>None\<close>, \<open>True\<close>, digits, a bracketed list or
  dict), which is never blank.
\<close>

fun str_blank :: "json \<Rightarrow> bool" where
  "str_blank (JStr s) = (strip s = [])"
| "str_blank _ = False"

subsection \<open>Tasks, the store and the environment\<close>

text \<open>
  A task dictionary has six keys. Five hold strings by construction; \<open>status\<close> holds
  whatever JSON value the handler copied from the payload.
\<close>

record task =
  task_id :: string
  title :: string
  description :: string
  status :: json
  created :: string
  updated :: string

type_synonym store = "task list"

text \<open>
  What a request reads from outside the program: the UUID that \<open>uuid.uuid4()\<close> returns,
  as its 128-bit integer, \<open>datetime.now().isoformat()\<close>, and the order in which the set
  \<open>allowed_status\<close> is iterated by \<open>join\<close> (it changes with the hash seed of the process).
\<close>

record env =
  uuid4 :: "128 word"
  now :: string
  set_order :: "string list"

text \<open>
  \<open>str\<close> of a UUID: its integer as 32 hexadecimal digits (\<open>'%032x' % self.int\<close>), cut
  into groups of 8, 4, 4, 4 and 12 digits with hyphens between them.
\<close>

definition hexdigit :: "nat \<Rightarrow> char" where
  "hexdigit n = ''0123456789abcdef'' ! n"

fun hex_pad :: "nat \<Rightarrow> nat \<Rightarrow> string" where
  "hex_pad 0 n = []"
| "hex_pad (Suc k) n = hex_pad k (n div 16) @ [hexdigit (n mod 16)]"

definition str_uuid :: "128 word \<Rightarrow> string" where
  "str_uuid u = (let x = hex_pad 32 (unat u) in
     take 8 x @ ''-'' @ take 4 (drop 8 x) @ ''-'' @ take 4 (drop 12 x) @ ''-'' @
     take 4 (drop 16 x) @ ''-'' @ drop 20 x)"

definition allowed_status :: "string set" where
  "allowed_status = {''pending'', ''in_progress'', ''completed''}"

text \<open>The two demonstration tasks loaded at import, with the two identifiers drawn then.\<close>

definition seed_store :: "string \<Rightarrow> string \<Rightarrow> store" where
  "seed_store id1 id2 =
    [\<lparr>task_id = id1, title = ''Finish REST API homework'',
       description = ''Build Flask CRUD endpoints for tasks'',
       status = JStr ''in_progress'',
       created = ''2025-09-30T10:00:00'', updated = ''2025-09-30T10:00:00''\<rparr>,
     \<lparr>task_id = id2, title = ''Prepare for software exam'',
       description = ''Revise Flask concepts and REST fundamentals'',
       status = JStr ''pending'',
       created = ''2025-09-30T09:00:00'', updated = ''2025-09-30T09:00:00''\<rparr>]"

datatype response =
    TaskList "task list" nat
  | TaskFound task
  | TaskCreated task
  | TaskUpdated task
  | TaskRemoved string
  | AllRemoved nat
  | NotFound string
  | BadRequest string
  | ValidationError string
  | Uncaught py_exn

subsection \<open>Utility functions\<close>

text \<open>\<open>get_task\<close>: the first task with the identifier, or None.\<close>

definition get_task :: "store \<Rightarrow> string \<Rightarrow> task option" where
  "get_task st tid = find (\<lambda>t. task_id t = tid) st"

text \<open>
  The handlers change the dictionary that \<open>get_task\<close> returned, which is the one in the
  list: \<open>put\<close> writes the changed task at the place of the first task with the identifier.
\<close>

fun put :: "store \<Rightarrow> string \<Rightarrow> task \<Rightarrow> store" where
  "put [] tid t' = []"
| "put (x # xs) tid t' = (if task_id x = tid then t' # xs else x # put xs tid t')"

fun join :: "string \<Rightarrow> string list \<Rightarrow> string" where
  "join sep [] = []"
| "join sep [x] = x"
| "join sep (x # y # ys) = x @ sep @ join sep (y # ys)"

text \<open>\<open>payload["status"] not in allowed_status\<close>: a list or a dict cannot be hashed.\<close>

fun not_in_allowed :: "json \<Rightarrow> py_exn + bool" where
  "not_in_allowed (JStr s) = Inr (s \<notin> allowed_status)"
| "not_in_allowed (JArr xs) = Inl TypeError"
| "not_in_allowed (JObj kvs) = Inl TypeError"
| "not_in_allowed _ = Inr True"

text \<open>The message for a required key that is missing or blank; the key is in single quotes.\<close>

definition required_message :: "string \<Rightarrow> string" where
  "required_message key = [CHR 0x27] @ key @ [CHR 0x27] @ '' is required and cannot be blank''"

text \<open>The loop of \<open>check_task_input\<close> over the required keys; None when all are there.\<close>

fun check_required :: "json \<Rightarrow> string list \<Rightarrow> py_exn + string option" where
  "check_required payload [] = Inr None"
| "check_required payload (key # keys) =
     (case py_contains key payload of
        Inl e \<Rightarrow> Inl e
      | Inr False \<Rightarrow> Inr (Some (required_message key))
      | Inr True \<Rightarrow>
          (case py_getitem payload key of
             Inl e \<Rightarrow> Inl e
           | Inr v \<Rightarrow>
               if str_blank v
               then Inr (Some (required_message key))
               else check_required payload keys))"

definition status_message :: "env \<Rightarrow> string" where
  "status_message e = ''Status must be one of: '' @ join '', '' (set_order e)"

definition check_status :: "env \<Rightarrow> json \<Rightarrow> py_exn + (bool \<times> string)" where
  "check_status e payload =
     (case py_contains ''status'' payload of
        Inl ex \<Rightarrow> Inl ex
      | Inr False \<Rightarrow> Inr (True, [])
      | Inr True \<Rightarrow>
          (case py_getitem payload ''status'' of
             Inl ex \<Rightarrow> Inl ex
           | Inr v \<Rightarrow>
               (case not_in_allowed v of
                  Inl ex \<Rightarrow> Inl ex
                | Inr True \<Rightarrow> Inr (False, status_message e)
                | Inr False \<Rightarrow> Inr (True, []))))"

definition check_task_input :: "env \<Rightarrow> json \<Rightarrow> string list \<Rightarrow> py_exn + (bool \<times> string)" where
  "check_task_input e payload must_have =
     (case check_required payload must_have of
        Inl ex \<Rightarrow> Inl ex
      | Inr (Some msg) \<Rightarrow> Inr (False, msg)
      | Inr None \<Rightarrow> check_status e payload)"

subsection \<open>Handlers\<close>

text \<open>\<open>list_tasks\<close>; the argument is \<open>request.args.get("status")\<close>.\<close>

definition list_tasks :: "store \<Rightarrow> string option \<Rightarrow> response" where
  "list_tasks st q =
     (case q of
        None \<Rightarrow> TaskList st (length st)
      | Some s \<Rightarrow>
          if s \<noteq> [] then
            (let result = filter (\<lambda>t. status t = JStr s) st in TaskList result (length result))
          else TaskList st (length st))"

definition fetch_task :: "store \<Rightarrow> string \<Rightarrow> response" where
  "fetch_task st tid =
     (case get_task st tid of
        None \<Rightarrow> NotFound (''No task with id '' @ tid)
      | Some t \<Rightarrow> TaskFound t)"

definition add_task :: "env \<Rightarrow> store \<Rightarrow> json \<Rightarrow> response \<times> store" where
  "add_task e st data =
     (if \<not> truthy data then (BadRequest ''JSON body required'', st)
      else case check_task_input e data [''title''] of
        Inl ex \<Rightarrow> (Uncaught ex, st)
      | Inr (False, msg) \<Rightarrow> (ValidationError msg, st)
      | Inr (True, msg) \<Rightarrow>
         (case py_getitem data ''title'' of
            Inl ex \<Rightarrow> (Uncaught ex, st)
          | Inr tv \<Rightarrow>
         (case py_strip tv of
            Inl ex \<Rightarrow> (Uncaught ex, st)
          | Inr ttl \<Rightarrow>
         (case py_get data ''description'' (JStr []) of
            Inl ex \<Rightarrow> (Uncaught ex, st)
          | Inr dv \<Rightarrow>
         (case py_strip dv of
            Inl ex \<Rightarrow> (Uncaught ex, st)
          | Inr desc \<Rightarrow>
         (case py_get data ''status'' (JStr ''pending'') of
            Inl ex \<Rightarrow> (Uncaught ex, st)
          | Inr sv \<Rightarrow>
              (let new_task = \<lparr>task_id = str_uuid (uuid4 e), title = ttl, description = desc,
                               status = sv, created = now e, updated = now e\<rparr>
               in (TaskCreated new_task, st @ [new_task]))))))))"

text \<open>
  The three conditional assignments of \<open>modify_task\<close>, each on the task as the one before
  left it.
\<close>

definition set_title :: "json \<Rightarrow> task \<Rightarrow> py_exn + task" where
  "set_title data t =
     (case py_contains ''title'' data of
        Inl ex \<Rightarrow> Inl ex
      | Inr False \<Rightarrow> Inr t
      | Inr True \<Rightarrow>
          (case py_getitem data ''title'' of
             Inl ex \<Rightarrow> Inl ex
           | Inr v \<Rightarrow>
               (case py_strip v of
                  Inl ex \<Rightarrow> Inl ex
                | Inr s \<Rightarrow> if s \<noteq> [] then Inr (t\<lparr>title := s\<rparr>) else Inr t)))"

definition set_description :: "json \<Rightarrow> task \<Rightarrow> py_exn + task" where
  "set_description data t =
     (case py_contains ''description'' data of
        Inl ex \<Rightarrow> Inl ex
      | Inr False \<Rightarrow> Inr t
      | Inr True \<Rightarrow>
          (case py_getitem data ''description'' of
             Inl ex \<Rightarrow> Inl ex
           | Inr v \<Rightarrow>
               (case py_strip v of
                  Inl ex \<Rightarrow> Inl ex
                | Inr s \<Rightarrow> Inr (t\<lparr>description := s\<rparr>))))"

definition set_status :: "json \<Rightarrow> task \<Rightarrow> py_exn + task" where
  "set_status data t =
     (case py_contains ''status'' data of
        Inl ex \<Rightarrow> Inl ex
      | Inr False \<Rightarrow> Inr t
      | Inr True \<Rightarrow>
          (case py_getitem data ''status'' of
             Inl ex \<Rightarrow> Inl ex
           | Inr v \<Rightarrow> Inr (t\<lparr>status := v\<rparr>)))"

text \<open>
  \<open>modify_task\<close>. An exception in a later assignment leaves the earlier ones in the store.
\<close>

definition modify_task :: "env \<Rightarrow> store \<Rightarrow> string \<Rightarrow> json \<Rightarrow> response \<times> store" where
  "modify_task e st tid data =
     (case get_task st tid of
        None \<Rightarrow> (NotFound (''Task id '' @ tid @ '' not found''), st)
      | Some t \<Rightarrow>
         if \<not> truthy data then (BadRequest ''JSON body required'', st)
         else case check_task_input e data [] of
           Inl ex \<Rightarrow> (Uncaught ex, st)
         | Inr (False, msg) \<Rightarrow> (ValidationError msg, st)
         | Inr (True, msg) \<Rightarrow>
            (case set_title data t of
               Inl ex \<Rightarrow> (Uncaught ex, st)
             | Inr t1 \<Rightarrow>
            (case set_description data t1 of
               Inl ex \<Rightarrow> (Uncaught ex, put st tid t1)
             | Inr t2 \<Rightarrow>
            (case set_status data t2 of
               Inl ex \<Rightarrow> (Uncaught ex, put st tid t2)
             | Inr t3 \<Rightarrow>
                 (let t4 = t3\<lparr>updated := now e\<rparr>
                  in (TaskUpdated t4, put st tid t4))))))"

text \<open>\<open>remove_task\<close>; \<open>list.remove\<close> drops the first element equal to the task.\<close>

definition remove_task :: "store \<Rightarrow> string \<Rightarrow> response \<times> store" where
  "remove_task st tid =
     (case get_task st tid of
        None \<Rightarrow> (NotFound (''No task with id '' @ tid), st)
      | Some t \<Rightarrow> (TaskRemoved tid, remove1 t st))"

definition remove_all :: "store \<Rightarrow> response \<times> store" where
  "remove_all st = (AllRemoved (length st), [])"

subsection \<open>Requests and reachable stores\<close>

datatype request =
    ListTasks "string option"
  | FetchTask string
  | AddTask json
  | ModifyTask string json
  | RemoveTask string
  | RemoveAll

fun handle :: "env \<Rightarrow> store \<Rightarrow> request \<Rightarrow> response \<times> store" where
  "handle e st (ListTasks q) = (list_tasks st q, st)"
| "handle e st (FetchTask tid) = (fetch_task st tid, st)"
| "handle e st (AddTask data) = add_task e st data"
| "handle e st (ModifyTask tid data) = modify_task e st tid data"
| "handle e st (RemoveTask tid) = remove_task st tid"
| "handle e st RemoveAll = remove_all st"

text \<open>
  The stores a running server can hold: the seeded one, and what any request leaves of a
  reachable one, whatever its body, the clock and the identifier drawn.
\<close>

inductive reachable :: "store \<Rightarrow> bool" where
  seeded: "reachable (seed_store id1 id2)"
| served: "reachable st \<Longrightarrow> reachable (snd (handle e st req))"

subsection \<open>The input structure of the specification\<close>

text \<open>
  The specification gives Create and Update an input of three optional text fields. These
  definitions follow its words, to be set against the handlers above: \<open>payload_of\<close> is the
  JSON object that carries such an input (the supplied fields, each a string), and
  \<open>updated_task\<close> is what the specification says a valid Update leaves of a task.
\<close>

record task_input =
  in_title :: "string option"
  in_description :: "string option"
  in_status :: "string option"

fun field :: "string \<Rightarrow> string option \<Rightarrow> (string \<times> json) list" where
  "field key None = []"
| "field key (Some s) = [(key, JStr s)]"

definition payload_of :: "task_input \<Rightarrow> json" where
  "payload_of inp = JObj (field ''title'' (in_title inp) @
     field ''description'' (in_description inp) @ field ''status'' (in_status inp))"

definition empty_input :: "task_input \<Rightarrow> bool" where
  "empty_input inp \<longleftrightarrow>
     in_title inp = None \<and> in_description inp = None \<and> in_status inp = None"

definition updated_task :: "env \<Rightarrow> task_input \<Rightarrow> task \<Rightarrow> task" where
  "updated_task e inp t =
     t\<lparr>title := (case in_title inp of None \<Rightarrow> title t
                   | Some s \<Rightarrow> if strip s = [] then title t else strip s),
       description := (case in_description inp of None \<Rightarrow> description t | Some d \<Rightarrow> strip d),
       status := (case in_status inp of None \<Rightarrow> status t | Some s \<Rightarrow> JStr s),
       updated := now e\<rparr>"

section \<open>Properties\<close>

subsection \<open>Looking a task up and writing it back\<close>

lemma get_task_None_iff: "get_task st tid = None \<longleftrightarrow> tid \<notin> task_id ` set st"
  by (auto simp: get_task_def find_None_iff)

lemma get_task_mem: "get_task st tid = Some t \<Longrightarrow> t \<in> set st \<and> task_id t = tid"
  by (auto simp: get_task_def find_Some_iff)

lemma get_task_split:
  "tid \<in> task_id ` set st \<Longrightarrow>
   \<exists>xs t ys. st = xs @ t # ys \<and> task_id t = tid \<and> tid \<notin> task_id ` set xs \<and>
      get_task st tid = Some t \<and> remove1 t st = xs @ ys"
proof (induction st)
  case Nil
  then show ?case by simp
next
  case (Cons x st)
  show ?case
  proof (cases "task_id x = tid")
    case True
    then have "x # st = [] @ x # st \<and> task_id x = tid \<and> tid \<notin> task_id ` set [] \<and>
      get_task (x # st) tid = Some x \<and> remove1 x (x # st) = [] @ st"
      by (simp add: get_task_def)
    then show ?thesis by blast
  next
    case False
    with Cons.prems have "tid \<in> task_id ` set st" by auto
    from Cons.IH [OF this] obtain xs t ys where
      h: "st = xs @ t # ys" "task_id t = tid" "tid \<notin> task_id ` set xs"
         "get_task st tid = Some t" "remove1 t st = xs @ ys" by blast
    from False h have "x # st = (x # xs) @ t # ys \<and> task_id t = tid \<and>
      tid \<notin> task_id ` set (x # xs) \<and>
      get_task (x # st) tid = Some t \<and> remove1 t (x # st) = (x # xs) @ ys"
      by (auto simp: get_task_def)
    then show ?thesis by blast
  qed
qed

lemma get_task_put:
  "get_task st tid = Some t \<Longrightarrow> task_id t' = tid \<Longrightarrow> get_task (put st tid t') tid = Some t'"
  by (induction st) (auto simp: get_task_def split: if_splits)

lemma set_put: "set (put st tid t') \<subseteq> insert t' (set st)"
  by (induction st) auto

lemma map_task_id_put: "task_id t' = tid \<Longrightarrow> map task_id (put st tid t') = map task_id st"
  by (induction st) auto

lemma map_title_put:
  "get_task st tid = Some t \<Longrightarrow> title t' = title t \<Longrightarrow> map title (put st tid t') = map title st"
  by (induction st) (auto simp: get_task_def split: if_splits)

lemma strip_Nil: "strip [] = []"
  by (simp add: strip_def)

subsection \<open>The text of a UUID\<close>

lemma length_hex_pad: "length (hex_pad k n) = k"
  by (induction k n rule: hex_pad.induct) auto

lemma length_str_uuid: "length (str_uuid u) = 36"
  by (simp add: str_uuid_def Let_def length_hex_pad)

lemma hex_pad_numeral:
  "hex_pad (numeral k) n = hex_pad (pred_numeral k) (n div 16) @ [hexdigit (n mod 16)]"
proof -
  have "numeral k = Suc (pred_numeral k)" by (rule numeral_eq_Suc)
  then show ?thesis by (simp only: hex_pad.simps)
qed

subsection \<open>The handlers on a JSON object with text fields\<close>

lemma map_of_field: "map_of (field k v) k' = (if k' = k then map_option JStr v else None)"
  by (cases v) auto

lemma payload_lookup:
  "payload_of inp = JObj kvs \<Longrightarrow>
     map_of kvs ''title'' = map_option JStr (in_title inp) \<and>
     map_of kvs ''description'' = map_option JStr (in_description inp) \<and>
     map_of kvs ''status'' = map_option JStr (in_status inp)"
  by (auto simp: payload_of_def map_add_def map_of_field split: option.splits)

lemma payload_of_empty: "payload_of inp = JObj [] \<longleftrightarrow> empty_input inp"
  by (cases "in_title inp"; cases "in_description inp"; cases "in_status inp")
     (simp_all add: payload_of_def empty_input_def)

lemma add_task_object:
  assumes "map_of kvs ''title'' = Some (JStr ttl)" and "strip ttl \<noteq> []"
    and "map_of kvs ''description'' = map_option JStr dsc"
    and "map_of kvs ''status'' = map_option JStr sts"
    and "\<forall>s. sts = Some s \<longrightarrow> s \<in> allowed_status"
  shows "add_task e st (JObj kvs) =
     (TaskCreated \<lparr>task_id = str_uuid (uuid4 e), title = strip ttl,
         description = (case dsc of None \<Rightarrow> [] | Some d \<Rightarrow> strip d),
         status = JStr (case sts of None \<Rightarrow> ''pending'' | Some s \<Rightarrow> s),
         created = now e, updated = now e\<rparr>,
      st @ [\<lparr>task_id = str_uuid (uuid4 e), title = strip ttl,
         description = (case dsc of None \<Rightarrow> [] | Some d \<Rightarrow> strip d),
         status = JStr (case sts of None \<Rightarrow> ''pending'' | Some s \<Rightarrow> s),
         created = now e, updated = now e\<rparr>])"
proof -
  from assms(1) have ne: "kvs \<noteq> []" by auto
  have chk: "check_task_input e (JObj kvs) [''title''] = Inr (True, [])"
    using assms by (cases sts) (simp_all add: check_task_input_def check_status_def)
  show ?thesis
    using ne assms(1,3,4)
    by (cases dsc; cases sts) (simp_all add: add_task_def chk Let_def strip_Nil)
qed

lemma add_task_title_missing:
  assumes "kvs \<noteq> []"
    and "map_of kvs ''title'' = None \<or> (\<exists>s. map_of kvs ''title'' = Some (JStr s) \<and> strip s = [])"
  shows "add_task e st (JObj kvs) = (ValidationError (required_message ''title''), st)"
  using assms by (auto simp: add_task_def check_task_input_def)

lemma add_task_status_invalid:
  assumes "map_of kvs ''title'' = Some (JStr ttl)" and "strip ttl \<noteq> []"
    and "map_of kvs ''status'' = Some (JStr s)" and "s \<notin> allowed_status"
  shows "add_task e st (JObj kvs) = (ValidationError (status_message e), st)"
proof -
  from assms(1) have "kvs \<noteq> []" by auto
  then show ?thesis
    using assms by (simp add: add_task_def check_task_input_def check_status_def)
qed

lemma check_update_object:
  assumes "map_of kvs ''status'' = map_option JStr sts"
  shows "check_task_input e (JObj kvs) [] =
     (case sts of None \<Rightarrow> Inr (True, [])
      | Some s \<Rightarrow> if s \<in> allowed_status then Inr (True, []) else Inr (False, status_message e))"
  using assms by (cases sts) (simp_all add: check_task_input_def check_status_def)

lemma set_title_object:
  "map_of kvs ''title'' = map_option JStr ttl \<Longrightarrow>
   set_title (JObj kvs) t =
     Inr (t\<lparr>title := (case ttl of None \<Rightarrow> title t
                        | Some s \<Rightarrow> if strip s = [] then title t else strip s)\<rparr>)"
  by (cases ttl) (simp_all add: set_title_def)

lemma set_description_object:
  "map_of kvs ''description'' = map_option JStr dsc \<Longrightarrow>
   set_description (JObj kvs) t =
     Inr (t\<lparr>description := (case dsc of None \<Rightarrow> description t | Some d \<Rightarrow> strip d)\<rparr>)"
  by (cases dsc) (simp_all add: set_description_def)

lemma set_status_object:
  "map_of kvs ''status'' = map_option JStr sts \<Longrightarrow>
   set_status (JObj kvs) t =
     Inr (t\<lparr>status := (case sts of None \<Rightarrow> status t | Some s \<Rightarrow> JStr s)\<rparr>)"
  by (cases sts) (simp_all add: set_status_def)

text \<open>
  On a non-empty object whose three fields, where supplied, are strings, \<open>modify_task\<close> does
  what the specification describes: it rejects a status outside the set and otherwise
  leaves \<open>updated_task\<close>. Keys other than the three are not looked at.
\<close>

lemma modify_task_object:
  assumes "get_task st tid = Some t" and "kvs \<noteq> []"
    and "map_of kvs ''title'' = map_option JStr (in_title inp)"
    and "map_of kvs ''description'' = map_option JStr (in_description inp)"
    and "map_of kvs ''status'' = map_option JStr (in_status inp)"
  shows "modify_task e st tid (JObj kvs) =
     (case in_status inp of
        None \<Rightarrow> (TaskUpdated (updated_task e inp t), put st tid (updated_task e inp t))
      | Some s \<Rightarrow>
          if s \<in> allowed_status
          then (TaskUpdated (updated_task e inp t), put st tid (updated_task e inp t))
          else (ValidationError (status_message e), st))"
proof (cases "\<exists>s. in_status inp = Some s \<and> s \<notin> allowed_status")
  case True
  then show ?thesis
    using assms(1,2) by (auto simp: modify_task_def check_update_object [OF assms(5)])
next
  case False
  then have chk: "check_task_input e (JObj kvs) [] = Inr (True, [])"
    by (auto simp: check_update_object [OF assms(5)] split: option.splits)
  have "modify_task e st tid (JObj kvs) =
      (TaskUpdated (updated_task e inp t), put st tid (updated_task e inp t))"
    using assms(1,2)
    by (simp add: modify_task_def chk set_title_object [OF assms(3)]
        set_description_object [OF assms(4)] set_status_object [OF assms(5)]
        updated_task_def Let_def split: option.splits)
  with False show ?thesis by (auto split: option.splits)
qed

lemma modify_task_input:
  assumes "get_task st tid = Some t" and "\<not> empty_input inp"
  shows "modify_task e st tid (payload_of inp) =
     (case in_status inp of
        None \<Rightarrow> (TaskUpdated (updated_task e inp t), put st tid (updated_task e inp t))
      | Some s \<Rightarrow>
          if s \<in> allowed_status
          then (TaskUpdated (updated_task e inp t), put st tid (updated_task e inp t))
          else (ValidationError (status_message e), st))"
proof -
  obtain kvs where k: "payload_of inp = JObj kvs" by (simp add: payload_of_def)
  with assms(2) have ne: "kvs \<noteq> []" using payload_of_empty [of inp] by auto
  from payload_lookup [OF k] modify_task_object [OF assms(1) ne, of inp e] k
  show ?thesis by simp
qed

subsection \<open>What the three assignments of \<open>modify_task\<close> leave alone\<close>

lemma set_title_frame:
  assumes "set_title data t = Inr t1"
  shows "task_id t1 = task_id t \<and> description t1 = description t \<and> status t1 = status t \<and>
         created t1 = created t \<and> updated t1 = updated t \<and>
         (py_contains ''title'' data \<noteq> Inr True \<longrightarrow> title t1 = title t)"
  using assms by (auto simp: set_title_def split: sum.splits bool.splits if_splits)

lemma set_description_frame:
  assumes "set_description data t = Inr t1"
  shows "task_id t1 = task_id t \<and> title t1 = title t \<and> status t1 = status t \<and>
         created t1 = created t \<and> updated t1 = updated t \<and>
         (py_contains ''description'' data \<noteq> Inr True \<longrightarrow> description t1 = description t)"
  using assms by (auto simp: set_description_def split: sum.splits bool.splits)

lemma set_status_frame:
  assumes "set_status data t = Inr t1"
  shows "task_id t1 = task_id t \<and> title t1 = title t \<and> description t1 = description t \<and>
         created t1 = created t \<and> updated t1 = updated t \<and>
         (py_contains ''status'' data \<noteq> Inr True \<longrightarrow> status t1 = status t)"
  using assms by (auto simp: set_status_def split: sum.splits bool.splits)

lemma modify_task_updated:
  assumes "get_task st tid = Some t" and "modify_task e st tid data = (TaskUpdated t', st')"
  shows "\<exists>t1 t2 t3. set_title data t = Inr t1 \<and> set_description data t1 = Inr t2 \<and>
           set_status data t2 = Inr t3 \<and> t' = t3\<lparr>updated := now e\<rparr> \<and> st' = put st tid t'"
  using assms
  by (auto simp: modify_task_def Let_def split: if_splits sum.splits prod.splits bool.splits)

subsection \<open>What a passed check says about the status\<close>

lemma not_in_allowed_False: "not_in_allowed v = Inr False \<Longrightarrow> \<exists>s\<in>allowed_status. v = JStr s"
  by (cases v) auto

lemma check_status_passed:
  assumes "check_status e data = Inr (True, m)"
  shows "py_contains ''status'' data = Inr False \<or>
         (\<exists>s\<in>allowed_status. py_contains ''status'' data = Inr True \<and>
             py_getitem data ''status'' = Inr (JStr s))"
  using assms
  by (auto simp: check_status_def split: sum.splits bool.splits dest: not_in_allowed_False)

lemma check_task_input_passed:
  "check_task_input e data ks = Inr (True, m) \<Longrightarrow> check_status e data = Inr (True, m)"
  by (auto simp: check_task_input_def split: sum.splits option.splits)

lemma set_status_checked:
  assumes "check_task_input e data ks = Inr (True, m)" and "set_status data t = Inr t'"
  shows "status t' = status t \<or> status t' \<in> JStr ` allowed_status"
  using check_status_passed [OF check_task_input_passed [OF assms(1)]] assms(2)
  by (auto simp: set_status_def)

lemma py_get_checked:
  assumes "check_task_input e data ks = Inr (True, m)"
    and "py_get data ''status'' (JStr ''pending'') = Inr sv"
  shows "sv \<in> JStr ` allowed_status"
proof (cases data)
  case (JObj kvs)
  with check_status_passed [OF check_task_input_passed [OF assms(1)]] assms(2)
  show ?thesis by (auto simp: allowed_status_def split: option.splits)
qed (use assms(2) in simp_all)

subsection \<open>What each handler does to the store\<close>

lemma add_task_store:
  "snd (add_task e st data) = st \<or>
   (\<exists>t. snd (add_task e st data) = st @ [t] \<and> task_id t = str_uuid (uuid4 e) \<and>
        status t \<in> JStr ` allowed_status)"
  by (auto simp: add_task_def Let_def dest: py_get_checked
      split: sum.splits prod.splits bool.splits)

lemma modify_task_store:
  "snd (modify_task e st tid data) = st \<or>
   (\<exists>t t'. get_task st tid = Some t \<and> snd (modify_task e st tid data) = put st tid t' \<and>
        task_id t' = tid \<and>
        (status t' = status t \<or> status t' \<in> JStr ` allowed_status))"
proof (cases "get_task st tid")
  case None
  then show ?thesis by (simp add: modify_task_def)
next
  case (Some t)
  note i = get_task_mem [OF Some]
  show ?thesis
  proof (cases "truthy data")
    case False
    with Some show ?thesis by (simp add: modify_task_def)
  next
    case True
    show ?thesis
    proof (cases "check_task_input e data []")
      case (Inl ex)
      with Some True show ?thesis by (simp add: modify_task_def)
    next
      case (Inr r)
      obtain ok m where r: "r = (ok, m)" by (cases r)
      show ?thesis
      proof (cases ok)
        case False
        with Some True Inr r show ?thesis by (simp add: modify_task_def)
      next
        case ok: True
        show ?thesis
        proof (cases "set_title data t")
          case (Inl ex)
          with Some True Inr r ok show ?thesis by (simp add: modify_task_def)
        next
          case t1: (Inr t1)
          note f1 = set_title_frame [OF t1]
          show ?thesis
          proof (cases "set_description data t1")
            case (Inl ex)
            with Some True Inr r ok t1 have "snd (modify_task e st tid data) = put st tid t1"
              by (simp add: modify_task_def)
            with Some f1 i show ?thesis by auto
          next
            case t2: (Inr t2)
            note f2 = set_description_frame [OF t2]
            show ?thesis
            proof (cases "set_status data t2")
              case (Inl ex)
              with Some True Inr r ok t1 t2
              have "snd (modify_task e st tid data) = put st tid t2"
                by (simp add: modify_task_def)
              with Some f1 f2 i show ?thesis by auto
            next
              case t3: (Inr t3)
              note f3 = set_status_frame [OF t3]
              from Inr r ok have c: "check_task_input e data [] = Inr (True, m)" by simp
              note s = set_status_checked [OF c t3]
              from Some True Inr r ok t1 t2 t3
              have "snd (modify_task e st tid data) = put st tid (t3\<lparr>updated := now e\<rparr>)"
                by (simp add: modify_task_def Let_def)
              moreover have "task_id (t3\<lparr>updated := now e\<rparr>) = tid"
                using f1 f2 f3 i by simp
              moreover have "status (t3\<lparr>updated := now e\<rparr>) = status t \<or>
                   status (t3\<lparr>updated := now e\<rparr>) \<in> JStr ` allowed_status"
                using f1 f2 s by auto
              ultimately show ?thesis using Some by blast
            qed
          qed
        qed
      qed
    qed
  qed
qed

lemma remove_task_store: "set (snd (remove_task st tid)) \<subseteq> set st"
  using set_remove1_subset by (fastforce simp: remove_task_def split: option.splits)

lemma handle_status:
  assumes "\<forall>t\<in>set st. status t \<in> JStr ` allowed_status"
  shows "\<forall>t\<in>set (snd (handle e st req)). status t \<in> JStr ` allowed_status"
proof (cases req)
  case (AddTask data)
  with add_task_store [of e st data] assms show ?thesis by auto
next
  case (ModifyTask tid data)
  from modify_task_store [of e st tid data]
  show ?thesis
  proof
    assume "snd (modify_task e st tid data) = st"
    with ModifyTask assms show ?thesis by simp
  next
    assume "\<exists>t t'. get_task st tid = Some t \<and> snd (modify_task e st tid data) = put st tid t' \<and>
        task_id t' = tid \<and> (status t' = status t \<or> status t' \<in> JStr ` allowed_status)"
    then obtain t t' where h: "get_task st tid = Some t"
        "snd (modify_task e st tid data) = put st tid t'"
        "status t' = status t \<or> status t' \<in> JStr ` allowed_status" by blast
    from get_task_mem [OF h(1)] assms have "status t \<in> JStr ` allowed_status" by blast
    with h(3) have "status t' \<in> JStr ` allowed_status" by auto
    with set_put [of st tid t'] assms h(2) ModifyTask show ?thesis by auto
  qed
next
  case (RemoveTask tid)
  with remove_task_store [of st tid] assms show ?thesis by auto
qed (use assms in \<open>simp_all add: remove_all_def\<close>)

text \<open>
  Identifiers stay pairwise different as long as \<open>uuid4\<close> never returns one that is in the
  store, which no handler checks: only \<open>add_task\<close> brings an identifier in, and
  \<open>modify_task\<close> never writes the key.
\<close>

lemma seed_store_ids: "id1 \<noteq> id2 \<Longrightarrow> distinct (map task_id (seed_store id1 id2))"
  by (simp add: seed_store_def)

lemma add_task_ids:
  assumes "distinct (map task_id st)" and "str_uuid (uuid4 e) \<notin> task_id ` set st"
  shows "distinct (map task_id (snd (add_task e st data)))"
  using add_task_store [of e st data] assms by auto

lemma modify_task_ids: "map task_id (snd (modify_task e st tid data)) = map task_id st"
  using modify_task_store [of e st tid data] map_task_id_put by auto

lemma remove_task_ids:
  assumes "distinct (map task_id st)"
  shows "distinct (map task_id (snd (remove_task st tid)))"
proof (cases "tid \<in> task_id ` set st")
  case True
  from get_task_split [OF this] obtain xs t ys where
    h: "st = xs @ t # ys" "get_task st tid = Some t" "remove1 t st = xs @ ys" by blast
  with assms show ?thesis by (auto simp: remove_task_def)
next
  case False
  then show ?thesis using assms by (simp add: remove_task_def get_task_None_iff [symmetric])
qed

subsection \<open>The status message\<close>

lemma sublist_join: "x \<in> set xs \<Longrightarrow> sublist x (join sep xs)"
proof (induction sep xs rule: join.induct)
  case (1 sep)
  then show ?case by simp
next
  case (2 sep y)
  then show ?case by simp
next
  case (3 sep y z zs)
  show ?case
  proof (cases "x = y")
    case True
    then show ?thesis by simp
  next
    case False
    with 3 have "sublist x (join sep (z # zs))" by simp
    then obtain ps ss where "join sep (z # zs) = ps @ x @ ss" by (auto simp: sublist_def)
    then have "join sep (y # z # zs) = (y @ sep @ ps) @ x @ ss" by simp
    then show ?thesis unfolding sublist_def by blast
  qed
qed

lemma status_message_names:
  assumes "a \<in> set (set_order e)"
  shows "sublist a (status_message e)"
proof -
  from sublist_join [OF assms, of "'', ''"]
  obtain ps ss where "join '', '' (set_order e) = ps @ a @ ss"
    unfolding sublist_def by blast
  then have "status_message e = (''Status must be one of: '' @ ps) @ a @ ss"
    by (simp add: status_message_def)
  then show ?thesis unfolding sublist_def by blast
qed

section \<open>The claims\<close>

subsection \<open>Create\<close>

text \<open>
  C1, as the handler has it. For every Create input whose title is a string that is not
  blank after trimming and whose status, if present, is one of the three values, \<open>add_task\<close>
  succeeds. The task it returns has as identifier the text of the UUID that \<open>uuid4\<close> gave,
  which is 36 characters long and so not empty, but which the handler does not compare with
  the identifiers in the store. It has the trimmed title, the trimmed description or the
  empty string, the given status or \<open>pending\<close>, and one timestamp as \<open>created\<close> and
  \<open>updated\<close>; the store afterwards is the old one with this task at its end.
\<close>

theorem add_task_creates:
  assumes "in_title inp = Some ttl" and "strip ttl \<noteq> []"
    and "\<forall>s. in_status inp = Some s \<longrightarrow> s \<in> allowed_status"
  shows "\<exists>t. add_task e st (payload_of inp) = (TaskCreated t, st @ [t]) \<and>
           task_id t = str_uuid (uuid4 e) \<and> length (task_id t) = 36 \<and> task_id t \<noteq> [] \<and>
           title t = strip ttl \<and>
           description t = (case in_description inp of None \<Rightarrow> [] | Some d \<Rightarrow> strip d) \<and>
           status t = JStr (case in_status inp of None \<Rightarrow> ''pending'' | Some s \<Rightarrow> s) \<and>
           created t = now e \<and> updated t = created t"
proof -
  obtain kvs where k: "payload_of inp = JObj kvs" by (simp add: payload_of_def)
  note l = payload_lookup [OF k]
  from l assms(1) have t: "map_of kvs ''title'' = Some (JStr ttl)" by simp
  from l have d: "map_of kvs ''description'' = map_option JStr (in_description inp)"
    and s: "map_of kvs ''status'' = map_option JStr (in_status inp)" by simp_all
  have n: "str_uuid (uuid4 e) \<noteq> []"
    using length_str_uuid [of "uuid4 e"] by auto
  from add_task_object [OF t assms(2) d s assms(3), of e st] k n length_str_uuid [of "uuid4 e"]
  show ?thesis by simp
qed

theorem add_task_creates_witness:
  "strip ''  Buy milk '' \<noteq> [] \<and>
   add_task \<lparr>uuid4 = 0x40008000000000000003, now = ''2025-10-01T08:00:00'', set_order = []\<rparr>
     (seed_store ''id-1'' ''id-2'')
     (payload_of \<lparr>in_title = Some ''  Buy milk '', in_description = None, in_status = None\<rparr>)
   = (TaskCreated \<lparr>task_id = ''00000000-0000-4000-8000-000000000003'', title = ''Buy milk'',
        description = [], status = JStr ''pending'', created = ''2025-10-01T08:00:00'',
        updated = ''2025-10-01T08:00:00''\<rparr>,
      seed_store ''id-1'' ''id-2'' @
      [\<lparr>task_id = ''00000000-0000-4000-8000-000000000003'', title = ''Buy milk'',
        description = [], status = JStr ''pending'', created = ''2025-10-01T08:00:00'',
        updated = ''2025-10-01T08:00:00''\<rparr>])"
proof -
  have a: "in_title \<lparr>in_title = Some ''  Buy milk '', in_description = None, in_status = None\<rparr>
             = Some ''  Buy milk ''" by simp
  have b: "strip ''  Buy milk '' \<noteq> []" by (simp add: strip_def isspace_def)
  have c: "\<forall>s. in_status \<lparr>in_title = Some ''  Buy milk '', in_description = None,
             in_status = None\<rparr> = Some s \<longrightarrow> s \<in> allowed_status" by simp
  have g: "strip ''  Buy milk '' = ''Buy milk''" by (simp add: strip_def isspace_def)
  have u: "str_uuid 0x40008000000000000003 = ''00000000-0000-4000-8000-000000000003''"
    by (simp add: str_uuid_def hexdigit_def hex_pad_numeral)
  from add_task_creates [OF a b c,
    of "\<lparr>uuid4 = 0x40008000000000000003, now = ''2025-10-01T08:00:00'', set_order = []\<rparr>"
       "seed_store ''id-1'' ''id-2''"]
  obtain t where
    t: "add_task \<lparr>uuid4 = 0x40008000000000000003, now = ''2025-10-01T08:00:00'',
            set_order = []\<rparr>
          (seed_store ''id-1'' ''id-2'')
          (payload_of \<lparr>in_title = Some ''  Buy milk '', in_description = None,
             in_status = None\<rparr>) = (TaskCreated t, seed_store ''id-1'' ''id-2'' @ [t])"
       "task_id t = str_uuid 0x40008000000000000003" "title t = strip ''  Buy milk ''"
       "description t = []" "status t = JStr ''pending''"
       "created t = ''2025-10-01T08:00:00''" "updated t = created t"
    by auto
  from t(2-7) g u have "t = \<lparr>task_id = ''00000000-0000-4000-8000-000000000003'',
        title = ''Buy milk'', description = [],
        status = JStr ''pending'', created = ''2025-10-01T08:00:00'',
        updated = ''2025-10-01T08:00:00''\<rparr>"
    by (cases t) simp
  with t(1) b show ?thesis by simp
qed

text \<open>
  C1 as it is written fails where it calls the identifier fresh: nothing in \<open>add_task\<close>
  looks at the identifiers in the store. When \<open>uuid4\<close> gives the UUID that the first stored
  task already has, the task is created with that same identifier.
\<close>

theorem add_task_fresh_id_counterexample:
  "add_task \<lparr>uuid4 = 0x40008000000000000003, now = ''2025-10-01T08:00:00'', set_order = []\<rparr>
     (seed_store ''00000000-0000-4000-8000-000000000003'' ''00000000-0000-4000-8000-000000000004'')
     (payload_of \<lparr>in_title = Some ''Buy milk'', in_description = None, in_status = None\<rparr>)
   = (TaskCreated \<lparr>task_id = ''00000000-0000-4000-8000-000000000003'', title = ''Buy milk'',
        description = [], status = JStr ''pending'', created = ''2025-10-01T08:00:00'',
        updated = ''2025-10-01T08:00:00''\<rparr>,
      seed_store ''00000000-0000-4000-8000-000000000003''
                 ''00000000-0000-4000-8000-000000000004'' @
      [\<lparr>task_id = ''00000000-0000-4000-8000-000000000003'', title = ''Buy milk'',
        description = [], status = JStr ''pending'', created = ''2025-10-01T08:00:00'',
        updated = ''2025-10-01T08:00:00''\<rparr>]) \<and>
   ''00000000-0000-4000-8000-000000000003'' \<in> task_id `
      set (seed_store ''00000000-0000-4000-8000-000000000003''
                      ''00000000-0000-4000-8000-000000000004'')"
  by (simp add: add_task_def payload_of_def check_task_input_def check_status_def
      strip_def isspace_def Let_def seed_store_def str_uuid_def hexdigit_def hex_pad_numeral)

text \<open>
  C8, as the handler has it. Create answers the empty input with BadRequest. Every other
  input whose title is absent or blank after trimming gets the ValidationError that names
  the title, whatever its status is, so the title is checked first. An input with a good
  title and a status outside the three values gets the ValidationError whose message, when
  the iteration of \<open>allowed_status\<close> yields its three members, contains each of them. In all
  three cases the store is the one before.
\<close>

theorem add_task_rejects:
  assumes "set (set_order e) = allowed_status"
  shows "(empty_input inp \<longrightarrow>
            add_task e st (payload_of inp) = (BadRequest ''JSON body required'', st)) \<and>
         (\<not> empty_input inp \<and>
            (in_title inp = None \<or> (\<exists>s. in_title inp = Some s \<and> strip s = [])) \<longrightarrow>
            add_task e st (payload_of inp) = (ValidationError (required_message ''title''), st)) \<and>
         (\<forall>ttl s. in_title inp = Some ttl \<and> strip ttl \<noteq> [] \<and>
              in_status inp = Some s \<and> s \<notin> allowed_status \<longrightarrow>
            add_task e st (payload_of inp) = (ValidationError (status_message e), st) \<and>
            (\<forall>a\<in>allowed_status. sublist a (status_message e)))"
proof (intro conjI impI allI)
  assume "empty_input inp"
  then have "payload_of inp = JObj []" by (simp only: payload_of_empty)
  then show "add_task e st (payload_of inp) = (BadRequest ''JSON body required'', st)"
    by (simp add: add_task_def)
next
  assume a: "\<not> empty_input inp \<and>
     (in_title inp = None \<or> (\<exists>s. in_title inp = Some s \<and> strip s = []))"
  obtain kvs where k: "payload_of inp = JObj kvs" by (simp add: payload_of_def)
  with a have ne: "kvs \<noteq> []" using payload_of_empty [of inp] by auto
  from payload_lookup [OF k] a
  have "map_of kvs ''title'' = None \<or> (\<exists>s. map_of kvs ''title'' = Some (JStr s) \<and> strip s = [])"
    by auto
  from add_task_title_missing [OF ne this] k
  show "add_task e st (payload_of inp) = (ValidationError (required_message ''title''), st)"
    by simp
next
  fix ttl s
  assume a: "in_title inp = Some ttl \<and> strip ttl \<noteq> [] \<and>
              in_status inp = Some s \<and> s \<notin> allowed_status"
  obtain kvs where k: "payload_of inp = JObj kvs" by (simp add: payload_of_def)
  from payload_lookup [OF k] a
  have "map_of kvs ''title'' = Some (JStr ttl)" "map_of kvs ''status'' = Some (JStr s)"
    by auto
  from add_task_status_invalid [OF this(1) _ this(2)] a k
  show "add_task e st (payload_of inp) = (ValidationError (status_message e), st)"
    by simp
next
  show "\<forall>a\<in>allowed_status. sublist a (status_message e)"
    using status_message_names assms by blast
qed

theorem add_task_rejects_witness:
  "set [''completed'', ''pending'', ''in_progress''] = allowed_status \<and>
   strip ''   '' = [] \<and> ''bogus'' \<notin> allowed_status \<and>
   add_task \<lparr>uuid4 = 0x40008000000000000003, now = ''2025-10-01T08:00:00'',
             set_order = [''completed'', ''pending'', ''in_progress'']\<rparr>
     (seed_store ''id-1'' ''id-2'')
     (payload_of \<lparr>in_title = Some ''   '', in_description = None, in_status = Some ''bogus''\<rparr>)
   = (ValidationError ([CHR 0x27] @ ''title'' @ [CHR 0x27] @ '' is required and cannot be blank''),
      seed_store ''id-1'' ''id-2'') \<and>
   add_task \<lparr>uuid4 = 0x40008000000000000003, now = ''2025-10-01T08:00:00'',
             set_order = [''completed'', ''pending'', ''in_progress'']\<rparr>
     (seed_store ''id-1'' ''id-2'')
     (payload_of \<lparr>in_title = Some ''Buy milk'', in_description = None,
        in_status = Some ''bogus''\<rparr>)
   = (ValidationError ''Status must be one of: completed, pending, in_progress'',
      seed_store ''id-1'' ''id-2'')"
proof -
  have h: "set (set_order \<lparr>uuid4 = 0x40008000000000000003, now = ''2025-10-01T08:00:00'',
             set_order = [''completed'', ''pending'', ''in_progress'']\<rparr>) = allowed_status"
    by (auto simp: allowed_status_def)
  have b: "strip ''   '' = []" "strip ''Buy milk'' \<noteq> []"
    by (simp_all add: strip_def isspace_def)
  have c: "''bogus'' \<notin> allowed_status" by (simp add: allowed_status_def)
  show ?thesis
    using h b c
      add_task_rejects [OF h, of "\<lparr>in_title = Some ''   '', in_description = None,
        in_status = Some ''bogus''\<rparr>" "seed_store ''id-1'' ''id-2''"]
      add_task_rejects [OF h, of "\<lparr>in_title = Some ''Buy milk'', in_description = None,
        in_status = Some ''bogus''\<rparr>" "seed_store ''id-1'' ''id-2''"]
    by (simp add: empty_input_def required_message_def status_message_def)
qed

text \<open>
  C8 as it is written fails at the empty input: its title is absent, and the answer is
  BadRequest, not a ValidationError.
\<close>

theorem add_task_empty_input_counterexample:
  "empty_input \<lparr>in_title = None, in_description = None, in_status = None\<rparr> \<and>
   add_task \<lparr>uuid4 = 0x40008000000000000003, now = ''2025-10-01T08:00:00'',
             set_order = [''completed'', ''pending'', ''in_progress'']\<rparr>
     (seed_store ''id-1'' ''id-2'')
     (payload_of \<lparr>in_title = None, in_description = None, in_status = None\<rparr>)
   = (BadRequest ''JSON body required'', seed_store ''id-1'' ''id-2'')"
  by (simp add: empty_input_def payload_of_def add_task_def)

text \<open>
  C4. Create does not stay within its named outcomes on every JSON payload. For the body
  \<open>{"title": 123}\<close> the check passes, since it looks at \<open>str(123)\<close>, and the handler then
  calls \<open>strip\<close> on the number: AttributeError leaves the handler.
\<close>

theorem add_task_non_string_title:
  "add_task e st (JObj [(''title'', JInt 123)]) = (Uncaught AttributeError, st)"
  by (simp add: add_task_def check_task_input_def check_status_def)

text \<open>
  Update has the same hole, and there an assignment made before the exception stays: with
  \<open>{"title": "new", "description": null}\<close> the title is already written when \<open>strip\<close> is
  called on \<open>None\<close>.
\<close>

lemma modify_task_null_description:
  "modify_task \<lparr>uuid4 = 0x40008000000000000003, now = ''2025-10-01T08:00:00'', set_order = []\<rparr>
     (seed_store ''id-1'' ''id-2'') ''id-1''
     (JObj [(''title'', JStr ''new''), (''description'', JNull)])
   = (Uncaught AttributeError,
      put (seed_store ''id-1'' ''id-2'') ''id-1''
        ((seed_store ''id-1'' ''id-2'' ! 0)\<lparr>title := ''new''\<rparr>))"
  by (simp add: modify_task_def get_task_def seed_store_def check_task_input_def
      check_status_def set_title_def set_description_def strip_def isspace_def)

subsection \<open>Update\<close>

text \<open>
  C9. For an identifier that no stored task has, \<open>modify_task\<close> answers NotFound whatever the
  body is (a valid or an invalid payload, or none, which is \<open>JNull\<close>), and the store is as
  before: the lookup comes before the body is read.
\<close>

theorem modify_task_unknown_id:
  assumes "tid \<notin> task_id ` set st"
  shows "modify_task e st tid data = (NotFound (''Task id '' @ tid @ '' not found''), st)"
  using assms by (simp add: modify_task_def get_task_None_iff [symmetric])

theorem modify_task_unknown_id_witness:
  "''no-such-id'' \<notin> task_id ` set (seed_store ''id-1'' ''id-2'') \<and>
   modify_task \<lparr>uuid4 = 0x40008000000000000003, now = ''2025-10-01T08:00:00'', set_order = []\<rparr>
     (seed_store ''id-1'' ''id-2'') ''no-such-id'' (JObj [(''status'', JStr ''bogus'')])
   = (NotFound ''Task id no-such-id not found'', seed_store ''id-1'' ''id-2'')"
proof -
  have h: "''no-such-id'' \<notin> task_id ` set (seed_store ''id-1'' ''id-2'')"
    by (simp add: seed_store_def)
  show ?thesis
    using h modify_task_unknown_id [OF h] by simp
qed

text \<open>
  C2, as the handler has it. For an existing task, Update with the empty input is answered
  with BadRequest and nothing is changed, \<open>updated\<close> included. An object that is not empty
  and supplies none of title, description and status is valid: no field of the task changes
  except \<open>updated\<close>, which becomes the current timestamp, and the task is returned.
\<close>

theorem modify_task_no_fields:
  assumes "get_task st tid = Some t"
  shows "modify_task e st tid (JObj []) = (BadRequest ''JSON body required'', st) \<and>
         (kvs \<noteq> [] \<and> map_of kvs ''title'' = None \<and> map_of kvs ''description'' = None \<and>
            map_of kvs ''status'' = None \<longrightarrow>
          modify_task e st tid (JObj kvs) =
            (TaskUpdated (t\<lparr>updated := now e\<rparr>), put st tid (t\<lparr>updated := now e\<rparr>)))"
proof (intro conjI impI)
  show "modify_task e st tid (JObj []) = (BadRequest ''JSON body required'', st)"
    using assms by (simp add: modify_task_def)
next
  assume a: "kvs \<noteq> [] \<and> map_of kvs ''title'' = None \<and> map_of kvs ''description'' = None \<and>
            map_of kvs ''status'' = None"
  let ?inp = "\<lparr>in_title = None, in_description = None, in_status = None\<rparr>"
  have u: "updated_task e ?inp t = t\<lparr>updated := now e\<rparr>"
    by (simp add: updated_task_def)
  from a modify_task_object [OF assms, of kvs ?inp e] u
  show "modify_task e st tid (JObj kvs) =
          (TaskUpdated (t\<lparr>updated := now e\<rparr>), put st tid (t\<lparr>updated := now e\<rparr>))"
    by simp
qed

theorem modify_task_no_fields_witness:
  "get_task (seed_store ''id-1'' ''id-2'') ''id-2'' = Some (seed_store ''id-1'' ''id-2'' ! Suc 0) \<and>
   modify_task \<lparr>uuid4 = 0x40008000000000000003, now = ''2025-10-01T08:00:00'', set_order = []\<rparr>
     (seed_store ''id-1'' ''id-2'') ''id-2'' (JObj [(''priority'', JInt 1)])
   = (TaskUpdated ((seed_store ''id-1'' ''id-2'' ! Suc 0)\<lparr>updated := ''2025-10-01T08:00:00''\<rparr>),
      [seed_store ''id-1'' ''id-2'' ! 0,
       (seed_store ''id-1'' ''id-2'' ! Suc 0)\<lparr>updated := ''2025-10-01T08:00:00''\<rparr>])"
proof -
  have g: "get_task (seed_store ''id-1'' ''id-2'') ''id-2''
             = Some (seed_store ''id-1'' ''id-2'' ! Suc 0)"
    by (simp add: get_task_def seed_store_def)
  show ?thesis
    using g modify_task_no_fields [OF g, of
        "\<lparr>uuid4 = 0x40008000000000000003, now = ''2025-10-01T08:00:00'', set_order = []\<rparr>"
        "[(''priority'', JInt 1)]"]
    by (simp add: seed_store_def)
qed

text \<open>
  C2 as it is written fails: the empty input is not valid for Update. On the seeded store
  the answer is BadRequest.
\<close>

theorem modify_task_empty_input_counterexample:
  "get_task (seed_store ''id-1'' ''id-2'') ''id-1'' = Some (seed_store ''id-1'' ''id-2'' ! 0) \<and>
   modify_task \<lparr>uuid4 = 0x40008000000000000003, now = ''2025-10-01T08:00:00'', set_order = []\<rparr>
     (seed_store ''id-1'' ''id-2'') ''id-1'' (JObj [])
   = (BadRequest ''JSON body required'', seed_store ''id-1'' ''id-2'')"
  by (simp add: modify_task_def get_task_def seed_store_def)

text \<open>
  C6. For an existing task and an input that supplies a title that is blank after trimming:
  no stored title changes, and when the supplied status (if any) is one of the three values
  the update succeeds with the title as it was and the other supplied fields applied. For an
  input that supplies a status outside the three values, Update answers ValidationError and
  the store is as before.
\<close>

theorem modify_task_blank_title_invalid_status:
  assumes "get_task st tid = Some t"
  shows "(\<forall>s. in_title inp = Some s \<and> strip s = [] \<longrightarrow>
            map title (snd (modify_task e st tid (payload_of inp))) = map title st \<and>
            ((\<forall>x. in_status inp = Some x \<longrightarrow> x \<in> allowed_status) \<longrightarrow>
               modify_task e st tid (payload_of inp) =
                 (TaskUpdated (updated_task e inp t), put st tid (updated_task e inp t)) \<and>
               title (updated_task e inp t) = title t)) \<and>
         (\<forall>s. in_status inp = Some s \<and> s \<notin> allowed_status \<longrightarrow>
            modify_task e st tid (payload_of inp) = (ValidationError (status_message e), st))"
proof (intro conjI allI impI)
  fix s
  assume a: "in_title inp = Some s \<and> strip s = []"
  then have ne: "\<not> empty_input inp" by (simp add: empty_input_def)
  from a have ti: "title (updated_task e inp t) = title t"
    by (simp add: updated_task_def)
  note m = modify_task_input [OF assms ne, of e]
  note p = map_title_put [OF assms ti]
  show "map title (snd (modify_task e st tid (payload_of inp))) = map title st"
    using m p by (simp split: option.splits)
  show "title (updated_task e inp t) = title t" by (rule ti)
  assume "\<forall>x. in_status inp = Some x \<longrightarrow> x \<in> allowed_status"
  then show "modify_task e st tid (payload_of inp) =
     (TaskUpdated (updated_task e inp t), put st tid (updated_task e inp t))"
    using m by (simp split: option.splits)
next
  fix s
  assume a: "in_status inp = Some s \<and> s \<notin> allowed_status"
  then have ne: "\<not> empty_input inp" by (simp add: empty_input_def)
  from modify_task_input [OF assms ne, of e] a
  show "modify_task e st tid (payload_of inp) = (ValidationError (status_message e), st)"
    by simp
qed

theorem modify_task_blank_title_invalid_status_witness:
  "get_task (seed_store ''id-1'' ''id-2'') ''id-1'' = Some (seed_store ''id-1'' ''id-2'' ! 0) \<and>
   strip ''   '' = [] \<and> ''completed'' \<in> allowed_status \<and> ''bogus'' \<notin> allowed_status \<and>
   modify_task \<lparr>uuid4 = 0x40008000000000000003, now = ''2025-10-01T08:00:00'',
                set_order = [''completed'', ''pending'', ''in_progress'']\<rparr>
     (seed_store ''id-1'' ''id-2'') ''id-1''
     (payload_of \<lparr>in_title = Some ''   '', in_description = None,
        in_status = Some ''completed''\<rparr>)
   = (TaskUpdated ((seed_store ''id-1'' ''id-2'' ! 0)
         \<lparr>status := JStr ''completed'', updated := ''2025-10-01T08:00:00''\<rparr>),
      [(seed_store ''id-1'' ''id-2'' ! 0)
         \<lparr>status := JStr ''completed'', updated := ''2025-10-01T08:00:00''\<rparr>,
       seed_store ''id-1'' ''id-2'' ! Suc 0]) \<and>
   modify_task \<lparr>uuid4 = 0x40008000000000000003, now = ''2025-10-01T08:00:00'',
                set_order = [''completed'', ''pending'', ''in_progress'']\<rparr>
     (seed_store ''id-1'' ''id-2'') ''id-1''
     (payload_of \<lparr>in_title = Some ''New title'', in_description = None,
        in_status = Some ''bogus''\<rparr>)
   = (ValidationError ''Status must be one of: completed, pending, in_progress'',
      seed_store ''id-1'' ''id-2'')"
proof -
  have g: "get_task (seed_store ''id-1'' ''id-2'') ''id-1''
             = Some (seed_store ''id-1'' ''id-2'' ! 0)"
    by (simp add: get_task_def seed_store_def)
  have b: "strip ''   '' = []" by (simp add: strip_def isspace_def)
  have c: "''completed'' \<in> allowed_status" "''bogus'' \<notin> allowed_status"
    by (simp_all add: allowed_status_def)
  show ?thesis
    using g b c
      modify_task_blank_title_invalid_status [OF g, of
        "\<lparr>in_title = Some ''   '', in_description = None, in_status = Some ''completed''\<rparr>"
        "\<lparr>uuid4 = 0x40008000000000000003, now = ''2025-10-01T08:00:00'',
          set_order = [''completed'', ''pending'', ''in_progress'']\<rparr>"]
      modify_task_blank_title_invalid_status [OF g, of
        "\<lparr>in_title = Some ''New title'', in_description = None, in_status = Some ''bogus''\<rparr>"
        "\<lparr>uuid4 = 0x40008000000000000003, now = ''2025-10-01T08:00:00'',
          set_order = [''completed'', ''pending'', ''in_progress'']\<rparr>"]
    by (simp add: updated_task_def status_message_def seed_store_def)
qed

text \<open>
  C7, as the handler has it. A successful Update of an existing task keeps its \<open>task_id\<close> and
  \<open>created\<close>, keeps every one of title, description and status whose key is not in the
  body, and sets \<open>updated\<close> to the clock reading of the request, which the handler does not
  compare with the old value. The changed task is written at its place in the store, and no
  identifier in the store changes.
\<close>

theorem modify_task_frame:
  assumes "get_task st tid = Some t" and "modify_task e st tid data = (TaskUpdated t', st')"
  shows "task_id t' = task_id t \<and> created t' = created t \<and>
         (py_contains ''title'' data \<noteq> Inr True \<longrightarrow> title t' = title t) \<and>
         (py_contains ''description'' data \<noteq> Inr True \<longrightarrow> description t' = description t) \<and>
         (py_contains ''status'' data \<noteq> Inr True \<longrightarrow> status t' = status t) \<and>
         updated t' = now e \<and>
         st' = put st tid t' \<and> get_task st' tid = Some t' \<and>
         map task_id st' = map task_id st"
proof -
  from modify_task_updated [OF assms] obtain t1 t2 t3 where
    s: "set_title data t = Inr t1" "set_description data t1 = Inr t2"
       "set_status data t2 = Inr t3" "t' = t3\<lparr>updated := now e\<rparr>" "st' = put st tid t'"
    by blast
  note f1 = set_title_frame [OF s(1)]
  note f2 = set_description_frame [OF s(2)]
  note f3 = set_status_frame [OF s(3)]
  from get_task_mem [OF assms(1)] have i: "task_id t = tid" by simp
  have a: "task_id t' = task_id t" "created t' = created t" "updated t' = now e"
    using f1 f2 f3 s(4) by simp_all
  have b: "py_contains ''title'' data \<noteq> Inr True \<longrightarrow> title t' = title t"
    using f1 f2 f3 s(4) by simp
  have c: "py_contains ''description'' data \<noteq> Inr True \<longrightarrow> description t' = description t"
    using f1 f2 f3 s(4) by simp
  have d: "py_contains ''status'' data \<noteq> Inr True \<longrightarrow> status t' = status t"
    using f1 f2 f3 s(4) by simp
  have g: "get_task st' tid = Some t'"
    using get_task_put [OF assms(1)] a(1) i s(5) by simp
  have m: "map task_id st' = map task_id st"
    using map_task_id_put a(1) i s(5) by simp
  from a b c d g m s(5) show ?thesis by simp
qed

theorem modify_task_frame_witness:
  "get_task (seed_store ''id-1'' ''id-2'') ''id-1'' = Some (seed_store ''id-1'' ''id-2'' ! 0) \<and>
   modify_task \<lparr>uuid4 = 0x40008000000000000003, now = ''2025-10-01T08:00:00'', set_order = []\<rparr>
     (seed_store ''id-1'' ''id-2'') ''id-1'' (JObj [(''description'', JStr '' All done '')])
   = (TaskUpdated ((seed_store ''id-1'' ''id-2'' ! 0)
         \<lparr>description := ''All done'', updated := ''2025-10-01T08:00:00''\<rparr>),
      [(seed_store ''id-1'' ''id-2'' ! 0)
         \<lparr>description := ''All done'', updated := ''2025-10-01T08:00:00''\<rparr>,
       seed_store ''id-1'' ''id-2'' ! Suc 0]) \<and>
   py_contains ''title'' (JObj [(''description'', JStr '' All done '')]) \<noteq> Inr True \<and>
   py_contains ''status'' (JObj [(''description'', JStr '' All done '')]) \<noteq> Inr True \<and>
   title ((seed_store ''id-1'' ''id-2'' ! 0)
         \<lparr>description := ''All done'', updated := ''2025-10-01T08:00:00''\<rparr>)
     = ''Finish REST API homework'' \<and>
   status ((seed_store ''id-1'' ''id-2'' ! 0)
         \<lparr>description := ''All done'', updated := ''2025-10-01T08:00:00''\<rparr>)
     = JStr ''in_progress'' \<and>
   created ((seed_store ''id-1'' ''id-2'' ! 0)
         \<lparr>description := ''All done'', updated := ''2025-10-01T08:00:00''\<rparr>)
     = ''2025-09-30T10:00:00''"
proof -
  have g: "get_task (seed_store ''id-1'' ''id-2'') ''id-1''
             = Some (seed_store ''id-1'' ''id-2'' ! 0)"
    by (simp add: get_task_def seed_store_def)
  have m: "modify_task \<lparr>uuid4 = 0x40008000000000000003, now = ''2025-10-01T08:00:00'',
       set_order = []\<rparr>
     (seed_store ''id-1'' ''id-2'') ''id-1'' (JObj [(''description'', JStr '' All done '')])
   = (TaskUpdated ((seed_store ''id-1'' ''id-2'' ! 0)
         \<lparr>description := ''All done'', updated := ''2025-10-01T08:00:00''\<rparr>),
      [(seed_store ''id-1'' ''id-2'' ! 0)
         \<lparr>description := ''All done'', updated := ''2025-10-01T08:00:00''\<rparr>,
       seed_store ''id-1'' ''id-2'' ! Suc 0])"
    by (simp add: modify_task_def get_task_def seed_store_def check_task_input_def
        check_status_def set_title_def set_description_def set_status_def strip_def
        isspace_def Let_def)
  show ?thesis
    using g m modify_task_frame [OF g m] by (simp add: seed_store_def)
qed

text \<open>
  C7 as it is written fails where it puts the new \<open>updated\<close> at or above the old one. The
  seeded first task carries \<open>2025-09-30T10:00:00\<close>; an Update served when the local clock
  reads two hours less succeeds and leaves the lower value.
\<close>

theorem modify_task_clock_counterexample:
  "modify_task \<lparr>uuid4 = 0x40008000000000000003, now = ''2025-09-30T08:00:00'', set_order = []\<rparr>
     (seed_store ''id-1'' ''id-2'') ''id-1'' (JObj [(''description'', JStr ''All done'')])
   = (TaskUpdated ((seed_store ''id-1'' ''id-2'' ! 0)
         \<lparr>description := ''All done'', updated := ''2025-09-30T08:00:00''\<rparr>),
      [(seed_store ''id-1'' ''id-2'' ! 0)
         \<lparr>description := ''All done'', updated := ''2025-09-30T08:00:00''\<rparr>,
       seed_store ''id-1'' ''id-2'' ! Suc 0]) \<and>
   updated (seed_store ''id-1'' ''id-2'' ! 0) = ''2025-09-30T10:00:00'' \<and>
   updated ((seed_store ''id-1'' ''id-2'' ! 0)
         \<lparr>description := ''All done'', updated := ''2025-09-30T08:00:00''\<rparr>)
     < updated (seed_store ''id-1'' ''id-2'' ! 0)"
  by (simp add: modify_task_def get_task_def seed_store_def check_task_input_def
      check_status_def set_title_def set_description_def set_status_def strip_def
      isspace_def Let_def)

subsection \<open>List\<close>

text \<open>
  C3, as the handler has it. \<open>list_tasks\<close> always answers with a task list and its length.
  Without a filter, and with the empty string as filter, that is the whole store in
  insertion order. With a filter that is not empty it is the stored tasks whose status
  equals the filter, in insertion order, which may be none.
\<close>

theorem list_tasks_filter:
  "list_tasks st None = TaskList st (length st) \<and>
   list_tasks st (Some []) = TaskList st (length st) \<and>
   (s \<noteq> [] \<longrightarrow>
      list_tasks st (Some s) =
        TaskList (filter (\<lambda>t. status t = JStr s) st)
                 (length (filter (\<lambda>t. status t = JStr s) st)))"
  by (simp add: list_tasks_def Let_def)

theorem list_tasks_filter_witness:
  "''pending'' \<noteq> [] \<and>
   list_tasks (seed_store ''id-1'' ''id-2'') (Some ''pending'') =
     TaskList [seed_store ''id-1'' ''id-2'' ! Suc 0] 1 \<and>
   ''done'' \<noteq> [] \<and>
   list_tasks (seed_store ''id-1'' ''id-2'') (Some ''done'') = TaskList [] 0"
  using list_tasks_filter [of "seed_store ''id-1'' ''id-2''" "''pending''"]
        list_tasks_filter [of "seed_store ''id-1'' ''id-2''" "''done''"]
  by (simp add: seed_store_def)

text \<open>
  C3 as it is written fails for the filter that is supplied and empty: no seeded task has
  the empty string as status, and both are returned.
\<close>

theorem list_tasks_empty_filter_counterexample:
  "list_tasks (seed_store ''id-1'' ''id-2'') (Some []) =
     TaskList (seed_store ''id-1'' ''id-2'') 2 \<and>
   JStr [] \<notin> status ` set (seed_store ''id-1'' ''id-2'')"
  by (simp add: list_tasks_def seed_store_def)

subsection \<open>Delete\<close>




subsection \<open>The status of stored tasks\<close>

text \<open>
  C5. In every store that can be reached from the seeded one by requests of any kind, with
  any body, every task has one of \<open>pending\<close>, \<open>in_progress\<close>, \<open>completed\<close> as its status.
  This includes the stores left by a request that ended in an exception.
\<close>

theorem reachable_status_allowed:
  assumes "reachable st"
  shows "\<forall>t\<in>set st. status t \<in> JStr ` allowed_status"
  using assms
proof (induction rule: reachable.induct)
  case (seeded id1 id2)
  show ?case by (simp add: seed_store_def allowed_status_def)
next
  case (served st e req)
  from served.IH show ?case by (rule handle_status)
qed

theorem reachable_status_allowed_witness:
  "reachable (snd (handle \<lparr>uuid4 = 0x40008000000000000003, now = ''2025-10-01T08:00:00'', set_order = []\<rparr>
      (seed_store ''id-1'' ''id-2'')
      (ModifyTask ''id-1'' (JObj [(''status'', JStr ''completed'')])))) \<and>
   status ` set (snd (handle \<lparr>uuid4 = 0x40008000000000000003, now = ''2025-10-01T08:00:00'', set_order = []\<rparr>
      (seed_store ''id-1'' ''id-2'')
      (ModifyTask ''id-1'' (JObj [(''status'', JStr ''completed'')]))))
     \<subseteq> JStr ` allowed_status \<and>
   map status (snd (handle \<lparr>uuid4 = 0x40008000000000000003, now = ''2025-10-01T08:00:00'', set_order = []\<rparr>
      (seed_store ''id-1'' ''id-2'')
      (ModifyTask ''id-1'' (JObj [(''status'', JStr ''completed'')]))))
     = [JStr ''completed'', JStr ''pending'']"
proof -
  have r: "reachable (snd (handle
      \<lparr>uuid4 = 0x40008000000000000003, now = ''2025-10-01T08:00:00'', set_order = []\<rparr>
      (seed_store ''id-1'' ''id-2'')
      (ModifyTask ''id-1'' (JObj [(''status'', JStr ''completed'')]))))"
    by (rule reachable.served) (rule reachable.seeded)
  have m: "map status (snd (handle
      \<lparr>uuid4 = 0x40008000000000000003, now = ''2025-10-01T08:00:00'', set_order = []\<rparr>
      (seed_store ''id-1'' ''id-2'')
      (ModifyTask ''id-1'' (JObj [(''status'', JStr ''completed'')]))))
     = [JStr ''completed'', JStr ''pending'']"
    by (simp add: modify_task_def get_task_def seed_store_def check_task_input_def
        check_status_def set_title_def set_description_def set_status_def allowed_status_def
        Let_def)
  from reachable_status_allowed [OF r]
  have i: "status ` set (snd (handle
      \<lparr>uuid4 = 0x40008000000000000003, now = ''2025-10-01T08:00:00'', set_order = []\<rparr>
      (seed_store ''id-1'' ''id-2'')
      (ModifyTask ''id-1'' (JObj [(''status'', JStr ''completed'')]))))
     \<subseteq> JStr ` allowed_status"
    by blast
  from r i m show ?thesis by blast
qed

end
